theory Spec2Isabelle
  imports Complex_Main
begin

section \<open>Data model of \<^verbatim>\<open>sas2py/compare/macros.py\<close>\<close>

text \<open>
  A cell is what iterating a pandas column yields: a number, a string, or a missing value.
  Two missing values are kept apart because Python does: \<open>NaN\<close> is the float
  not-a-number of a numeric column, \<open>NoneV\<close> the \<^verbatim>\<open>None\<close> of an object column.
  \<^verbatim>\<open>pd.isna\<close> is true of both. A finite float is the real number it denotes (the data
  hold no infinities); the arithmetic of the code on floats is float64 arithmetic, which
  is modelled below with its rounding. 64-bit integers are unbounded integers embedded in
  the reals, so that \<^verbatim>\<open>1 == 1.0\<close> holds as in Python.
\<close>

datatype cell = NaN | NoneV | Num real | Str string

definition isna :: "cell \<Rightarrow> bool" where
  "isna v = (v = NaN \<or> v = NoneV)"

subsection \<open>float64 arithmetic\<close>

text \<open>
  The result of a float64 operation on finite operands: the exact result rounded to the
  nearest binary64 value, ties to the even significand, or an infinity on overflow.
  \<open>expo x\<close> is the binary exponent of a positive \<open>x\<close>, the \<open>e\<close> with
  \<open>2 ^ e \<le> x < 2 ^ (e + 1)\<close>. A binary64 value has 53 significant bits and is a multiple
  of \<open>2 ^ - 1074\<close>; a result of magnitude \<open>2 ^ 1024\<close> or more after rounding is an
  infinity. The sign of a zero is not kept.
\<close>

datatype f64 = Finite real | PosInf | NegInf

function expo :: "real \<Rightarrow> int" where
  "expo x = (if 2 \<le> x then expo (x / 2) + 1
             else if 0 < x \<and> x < 1 then expo (2 * x) - 1
             else 0)"
  by pat_completeness auto
termination
proof (relation "measure (\<lambda>x. nat (2 * \<lceil>1 / x\<rceil> + \<lfloor>x\<rfloor>))")
  show "wf (measure (\<lambda>x. nat (2 * \<lceil>1 / x\<rceil> + \<lfloor>x\<rfloor>)))" by simp
next
  fix x :: real assume x: "2 \<le> x"
  have c1: "\<lceil>1 / x\<rceil> = 1" using x by (simp add: ceiling_eq_iff field_simps)
  have c2: "\<lceil>1 / (x / 2)\<rceil> = 1" using x by (simp add: ceiling_eq_iff field_simps)
  have "\<lfloor>x / 2\<rfloor> \<le> \<lfloor>x - 1\<rfloor>" using x by (intro floor_mono) simp
  then have f: "\<lfloor>x / 2\<rfloor> < \<lfloor>x\<rfloor>" by simp
  have g: "0 \<le> \<lfloor>x / 2\<rfloor>" using x by simp
  have "nat (2 * \<lceil>1 / (x / 2)\<rceil> + \<lfloor>x / 2\<rfloor>) < nat (2 * \<lceil>1 / x\<rceil> + \<lfloor>x\<rfloor>)"
    unfolding c1 c2 using f g by linarith
  then show "(x / 2, x) \<in> measure (\<lambda>x. nat (2 * \<lceil>1 / x\<rceil> + \<lfloor>x\<rfloor>))"
    by (simp only: in_measure)
next
  fix x :: real assume "\<not> 2 \<le> x" and x: "0 < x \<and> x < 1"
  have f0: "\<lfloor>x\<rfloor> = 0" using x by (simp add: floor_eq_iff)
  have f1: "\<lfloor>2 * x\<rfloor> \<le> 1" using x by (simp add: floor_le_iff)
  have f2: "0 \<le> \<lfloor>2 * x\<rfloor>" using x by simp
  have y: "1 < 1 / x" using x by (simp add: field_simps)
  then have cy: "2 \<le> \<lceil>1 / x\<rceil>" by (simp add: le_ceiling_iff)
  have "1 / (2 * x) \<le> of_int \<lceil>1 / x\<rceil> / 2"
    using le_of_int_ceiling [of "1 / x"] by (simp add: field_simps)
  also have "\<dots> \<le> of_int (\<lceil>1 / x\<rceil> - 1)" using cy by simp
  finally have c: "\<lceil>1 / (2 * x)\<rceil> \<le> \<lceil>1 / x\<rceil> - 1" by (simp only: ceiling_le_iff)
  have "nat (2 * \<lceil>1 / (2 * x)\<rceil> + \<lfloor>2 * x\<rfloor>) < nat (2 * \<lceil>1 / x\<rceil> + \<lfloor>x\<rfloor>)"
    unfolding f0 using c f1 f2 cy by linarith
  then show "(2 * x, x) \<in> measure (\<lambda>x. nat (2 * \<lceil>1 / x\<rceil> + \<lfloor>x\<rfloor>))"
    by (simp only: in_measure)
qed

declare expo.simps [simp del]

definition pow2 :: "int \<Rightarrow> real" where
  "pow2 q = (if 0 \<le> q then 2 ^ nat q else 1 / 2 ^ nat (- q))"

definition round_half_even :: "real \<Rightarrow> int" where
  "round_half_even x =
     (let f = \<lfloor>x\<rfloor>; r = x - of_int f in
      if r < 1 / 2 then f
      else if 1 / 2 < r then f + 1
      else if even f then f else f + 1)"

definition round64 :: "real \<Rightarrow> f64" where
  "round64 x =
     (if x = 0 then Finite 0
      else (let q = max (expo \<bar>x\<bar> - 52) (- 1074);
                y = of_int (round_half_even (x / pow2 q)) * pow2 q
            in if 2 ^ 1024 \<le> \<bar>y\<bar> then (if 0 < x then PosInf else NegInf)
               else Finite y))"

text \<open>The sum of a finite float and a float64 result, the absolute value, and \<^verbatim>\<open><=\<close>.\<close>

fun add64 :: "real \<Rightarrow> f64 \<Rightarrow> f64" where
  "add64 a (Finite b) = round64 (a + b)"
| "add64 a PosInf = PosInf"
| "add64 a NegInf = NegInf"

fun abs64 :: "f64 \<Rightarrow> f64" where
  "abs64 (Finite a) = Finite \<bar>a\<bar>"
| "abs64 PosInf = PosInf"
| "abs64 NegInf = PosInf"

fun le64 :: "f64 \<Rightarrow> f64 \<Rightarrow> bool" where
  "le64 (Finite a) (Finite b) = (a \<le> b)"
| "le64 NegInf _ = True"
| "le64 _ PosInf = True"
| "le64 _ _ = False"

text \<open>
  A column carries its dtype: \<^verbatim>\<open>float64\<close> (kind \<^verbatim>\<open>'f'\<close>), \<^verbatim>\<open>int64\<close> (kind \<^verbatim>\<open>'i'\<close>) or
  \<^verbatim>\<open>object\<close> holding strings and \<^verbatim>\<open>None\<close> (kind \<^verbatim>\<open>'O'\<close>): the numeric and character
  variables of a SAS dataset. Complex columns (kind \<^verbatim>\<open>'c'\<close>) are not modelled.
\<close>

datatype series =
    Float64 "real option list"
  | Int64 "int list"
  | Object "string option list"

fun dtype_kind :: "series \<Rightarrow> char" where
  "dtype_kind (Float64 _) = CHR ''f''"
| "dtype_kind (Int64 _) = CHR ''i''"
| "dtype_kind (Object _) = CHR ''O''"

fun values_of :: "series \<Rightarrow> cell list" where
  "values_of (Float64 xs) = map (\<lambda>x. case x of None \<Rightarrow> NaN | Some r \<Rightarrow> Num r) xs"
| "values_of (Int64 xs) = map (\<lambda>n. Num (real_of_int n)) xs"
| "values_of (Object xs) = map (\<lambda>x. case x of None \<Rightarrow> NoneV | Some s \<Rightarrow> Str s) xs"

text \<open>
  A DataFrame is the ordered list of its named columns; \<open>len\<close> is the number of rows.
  In a well-formed one (\<open>wf_frame\<close>) all columns have that length, as in every DataFrame,
  and the column names are unique, as the variables of a SAS dataset are. The parameters \<^verbatim>\<open>base\<close>, \<^verbatim>\<open>comp\<close> and \<^verbatim>\<open>by\<close> of the source are
  \<open>base_df\<close>, \<open>comp_df\<close> and \<open>by_vars\<close> here.
\<close>

type_synonym dataframe = "(string \<times> series) list"

definition columns :: "dataframe \<Rightarrow> string list" where
  "columns df = map fst df"

definition len :: "dataframe \<Rightarrow> nat" where
  "len df = (case df of [] \<Rightarrow> 0 | (_, s) # _ \<Rightarrow> length (values_of s))"

definition wf_frame :: "dataframe \<Rightarrow> bool" where
  "wf_frame df = (distinct (columns df) \<and> list_all (\<lambda>(_, s). length (values_of s) = len df) df)"

datatype error = KeyError string | ValueError string | FileNotFoundError string | StopIteration

fun error_name :: "error \<Rightarrow> string" where
  "error_name (KeyError _) = ''KeyError''"
| "error_name (ValueError _) = ''ValueError''"
| "error_name (FileNotFoundError _) = ''FileNotFoundError''"
| "error_name StopIteration = ''StopIteration''"

text \<open>\<^verbatim>\<open>df[col]\<close>: the column of that name, \<^verbatim>\<open>KeyError\<close> when there is none.\<close>

definition getitem :: "dataframe \<Rightarrow> string \<Rightarrow> error + series" where
  "getitem df col = (case map_of df col of None \<Rightarrow> Inl (KeyError col) | Some s \<Rightarrow> Inr s)"

text \<open>Sequencing of calls that may raise: the first error ends the computation.\<close>

definition bind_err :: "error + 'a \<Rightarrow> ('a \<Rightarrow> error + 'b) \<Rightarrow> error + 'b" where
  "bind_err m f = (case m of Inl e \<Rightarrow> Inl e | Inr x \<Rightarrow> f x)"

fun traverse :: "('a \<Rightarrow> error + 'b) \<Rightarrow> 'a list \<Rightarrow> error + 'b list" where
  "traverse f [] = Inr []"
| "traverse f (x # xs) =
     bind_err (f x) (\<lambda>y. bind_err (traverse f xs) (\<lambda>ys. Inr (y # ys)))"

subsection \<open>Difference records and the report\<close>

text \<open>
  The dictionaries appended to the difference list have different key sets; a key that a
  dictionary does not have is \<open>None\<close> here. \<open>d_base_rows\<close> and \<open>d_comp_rows\<close> are the
  \<^verbatim>\<open>'base_rows'\<close> and \<^verbatim>\<open>'comp_rows'\<close> keys of a row-count record.
\<close>

record difference_record =
  by_values :: "cell list option"
  variable :: "string option"
  row :: "nat option"
  base_value :: "cell option"
  comp_value :: "cell option"
  issue :: string
  d_base_rows :: "nat option"
  d_comp_rows :: "nat option"
  difference :: "f64 option"

definition row_count_record :: "cell list option \<Rightarrow> string option \<Rightarrow> nat \<Rightarrow> nat \<Rightarrow> difference_record" where
  "row_count_record key col nb nc =
     \<lparr>by_values = key, variable = col, row = None, base_value = None, comp_value = None,
      issue = ''row_count_mismatch'', d_base_rows = Some nb, d_comp_rows = Some nc,
      difference = None\<rparr>"

definition missing_record :: "cell list option \<Rightarrow> string \<Rightarrow> nat \<Rightarrow> cell \<Rightarrow> cell \<Rightarrow> difference_record" where
  "missing_record key col i bv cv =
     \<lparr>by_values = key, variable = Some col, row = Some i, base_value = Some bv,
      comp_value = Some cv, issue = ''missing_value_mismatch'', d_base_rows = None,
      d_comp_rows = None, difference = None\<rparr>"

definition value_record :: "cell list option \<Rightarrow> string \<Rightarrow> nat \<Rightarrow> cell \<Rightarrow> cell \<Rightarrow> f64 option \<Rightarrow> difference_record" where
  "value_record key col i bv cv d =
     \<lparr>by_values = key, variable = Some col, row = Some i, base_value = Some bv,
      comp_value = Some cv, issue = ''value_mismatch'', d_base_rows = None,
      d_comp_rows = None, difference = d\<rparr>"

record report =
  row_count_match :: bool
  base_rows :: nat
  comp_rows :: nat
  column_count_match :: bool
  base_columns :: nat
  comp_columns :: nat
  column_names_match :: bool
  differences :: "difference_record list"
  by_group_count_match :: "bool option"
  base_only_groups :: "nat option"
  comp_only_groups :: "nat option"
  common_groups :: "nat option"
  match :: bool
  difference_count :: nat

section \<open>Comparing two cells\<close>

text \<open>
  \<^verbatim>\<open>numpy.isclose(a, b, rtol, atol)\<close> on finite floats is, as numpy documents it,
  \<^verbatim>\<open>absolute(a - b) <= (atol + rtol * absolute(b))\<close>, computed in float64: the
  difference, the product and the sum are each rounded. The tolerances are finite floats.
  The properties below take tolerances that are not negative, where every numpy release
  computes this relation.
\<close>

definition np_isclose :: "real \<Rightarrow> real \<Rightarrow> real \<Rightarrow> real \<Rightarrow> bool" where
  "np_isclose a b rtol atol =
     le64 (abs64 (round64 (a - b))) (add64 atol (round64 (rtol * \<bar>b\<bar>)))"

text \<open>
  The defaults of \<^verbatim>\<open>compare\<close> are the float literals \<^verbatim>\<open>1.0e-9\<close> and \<^verbatim>\<open>1.0e-6\<close>,
  that is the binary64 values nearest to those decimals.
\<close>

definition default_abs_tol :: real where
  "default_abs_tol = 4835703278458517 / 2 ^ 82"

definition default_rel_tol :: real where
  "default_rel_tol = 4722366482869645 / 2 ^ 72"

text \<open>
  The body of the loop of lines 187-210 and 250-271 (both dtypes of kind \<^verbatim>\<open>'f'\<close> or
  \<^verbatim>\<open>'c'\<close>). \<open>key\<close> is the \<^verbatim>\<open>'by_values'\<close> entry, present in keyed mode only. The
  difference \<^verbatim>\<open>comp_val - base_val\<close> is a float64 subtraction. The last case cannot
  occur: the cells of a float column are numbers or \<open>NaN\<close>.
\<close>

definition float_cell :: "cell list option \<Rightarrow> string \<Rightarrow> real \<Rightarrow> real \<Rightarrow> nat \<Rightarrow> cell \<Rightarrow> cell \<Rightarrow> difference_record list" where
  "float_cell key col abs_tol rel_tol i base_val comp_val =
     (if isna base_val \<and> isna comp_val then []
      else if isna base_val \<or> isna comp_val then [missing_record key col i base_val comp_val]
      else (case (base_val, comp_val) of
              (Num a, Num b) \<Rightarrow>
                (if \<not> np_isclose a b rel_tol abs_tol
                 then [value_record key col i base_val comp_val (Some (round64 (b - a)))]
                 else [])
            | _ \<Rightarrow> []))"

text \<open>The body of the loop of lines 212-232 and 273-291 (every other pair of dtypes).\<close>

definition exact_cell :: "cell list option \<Rightarrow> string \<Rightarrow> nat \<Rightarrow> cell \<Rightarrow> cell \<Rightarrow> difference_record list" where
  "exact_cell key col i base_val comp_val =
     (if isna base_val \<and> isna comp_val then []
      else if isna base_val \<or> isna comp_val then [missing_record key col i base_val comp_val]
      else if base_val \<noteq> comp_val then [value_record key col i base_val comp_val None]
      else [])"

text \<open>\<^verbatim>\<open>for i, (base_val, comp_val) in enumerate(zip(base_vals, comp_vals))\<close>.\<close>

definition float_loop :: "cell list option \<Rightarrow> string \<Rightarrow> real \<Rightarrow> real \<Rightarrow> cell list \<Rightarrow> cell list \<Rightarrow> difference_record list" where
  "float_loop key col abs_tol rel_tol base_vals comp_vals =
     concat (map (\<lambda>(i, base_val, comp_val). float_cell key col abs_tol rel_tol i base_val comp_val)
                 (enumerate 0 (zip base_vals comp_vals)))"

definition exact_loop :: "cell list option \<Rightarrow> string \<Rightarrow> cell list \<Rightarrow> cell list \<Rightarrow> difference_record list" where
  "exact_loop key col base_vals comp_vals =
     concat (map (\<lambda>(i, base_val, comp_val). exact_cell key col i base_val comp_val)
                 (enumerate 0 (zip base_vals comp_vals)))"

text \<open>The dtype dispatch of lines 186 and 249, on two columns of the same name.\<close>

definition column_differences :: "cell list option \<Rightarrow> string \<Rightarrow> real \<Rightarrow> real \<Rightarrow> series \<Rightarrow> series \<Rightarrow> difference_record list" where
  "column_differences key col abs_tol rel_tol base_col comp_col =
     (if dtype_kind base_col \<in> set ''fc'' \<and> dtype_kind comp_col \<in> set ''fc''
      then float_loop key col abs_tol rel_tol (values_of base_col) (values_of comp_col)
      else exact_loop key col (values_of base_col) (values_of comp_col))"

section \<open>Positional mode (lines 233-291)\<close>

text \<open>
  \<^verbatim>\<open>set(base.columns) & set(comp.columns)\<close>. Python leaves the iteration order of a set
  open; the model iterates in the order of the base table's columns.
\<close>

definition common_columns :: "dataframe \<Rightarrow> dataframe \<Rightarrow> string list" where
  "common_columns base_df comp_df = filter (\<lambda>c. c \<in> set (columns comp_df)) (remdups (columns base_df))"

text \<open>\<^verbatim>\<open>.iloc[:n]\<close> keeps the dtype.\<close>

fun iloc_head :: "nat \<Rightarrow> series \<Rightarrow> series" where
  "iloc_head n (Float64 xs) = Float64 (take n xs)"
| "iloc_head n (Int64 xs) = Int64 (take n xs)"
| "iloc_head n (Object xs) = Object (take n xs)"

definition positional_column :: "dataframe \<Rightarrow> dataframe \<Rightarrow> real \<Rightarrow> real \<Rightarrow> string \<Rightarrow> error + difference_record list" where
  "positional_column base_df comp_df abs_tol rel_tol col =
     (let min_rows = min (len base_df) (len comp_df) in
      bind_err (getitem base_df col) (\<lambda>b.
      bind_err (getitem comp_df col) (\<lambda>c.
        Inr (column_differences None col abs_tol rel_tol
               (iloc_head min_rows b) (iloc_head min_rows c)))))"

definition positional_differences :: "dataframe \<Rightarrow> dataframe \<Rightarrow> real \<Rightarrow> real \<Rightarrow> error + difference_record list" where
  "positional_differences base_df comp_df abs_tol rel_tol =
     bind_err (traverse (positional_column base_df comp_df abs_tol rel_tol) (common_columns base_df comp_df))
       (\<lambda>per_column.
          Inr ((if len base_df \<noteq> len comp_df
                then [row_count_record None None (len base_df) (len comp_df)] else [])
               @ concat per_column))"

section \<open>Keyed mode (lines 142-232)\<close>

subsection \<open>\<^verbatim>\<open>sort_values(by).reset_index(drop=True)\<close>\<close>

text \<open>
  Ascending, lexicographic in the key columns, missing values last (the default
  \<^verbatim>\<open>na_position\<close>), rows of equal key in their input order. Strings are ordered by
  code point. A number and a string never meet: a column holds one type. With a single
  key column pandas sorts by quicksort, which may reorder rows of equal key; no property
  below depends on the order of such rows.
\<close>

fun str_lt :: "string \<Rightarrow> string \<Rightarrow> bool" where
  "str_lt [] [] = False"
| "str_lt [] (d # ds) = True"
| "str_lt (c # cs) [] = False"
| "str_lt (c # cs) (d # ds) =
     (if c = d then str_lt cs ds else (of_char c :: nat) < of_char d)"

fun cell_lt :: "cell \<Rightarrow> cell \<Rightarrow> bool" where
  "cell_lt (Num a) (Num b) = (a < b)"
| "cell_lt (Str s) (Str t) = str_lt s t"
| "cell_lt a b = (\<not> isna a \<and> isna b)"

fun key_lt :: "cell list \<Rightarrow> cell list \<Rightarrow> bool" where
  "key_lt (a # as) (b # bs) = (cell_lt a b \<or> (\<not> cell_lt b a \<and> key_lt as bs))"
| "key_lt _ _ = False"

fun insert_key :: "nat \<times> cell list \<Rightarrow> (nat \<times> cell list) list \<Rightarrow> (nat \<times> cell list) list" where
  "insert_key x [] = [x]"
| "insert_key x (y # ys) =
     (if key_lt (snd x) (snd y) then x # y # ys else y # insert_key x ys)"

definition argsort :: "cell list list \<Rightarrow> nat list" where
  "argsort ks = map fst (foldl (\<lambda>acc x. insert_key x acc) [] (enumerate 0 ks))"

fun take_rows :: "nat list \<Rightarrow> series \<Rightarrow> series" where
  "take_rows idx (Float64 xs) = Float64 (map (\<lambda>i. xs ! i) idx)"
| "take_rows idx (Int64 xs) = Int64 (map (\<lambda>i. xs ! i) idx)"
| "take_rows idx (Object xs) = Object (map (\<lambda>i. xs ! i) idx)"

text \<open>
  \<^verbatim>\<open>df[by].values\<close>, row by row: the key tuple of every row. In a well-formed frame
  every column has \<open>len df\<close> cells, so each index read here and in \<open>take_rows\<close> is in
  range. When the key columns are of int64 and of float64 dtype together, pandas converts
  the integers to floats in this array; the model keeps them exact, which differs for
  integers beyond \<open>2 ^ 53\<close> and reaches the group counts only.
\<close>

definition key_tuples :: "dataframe \<Rightarrow> string list \<Rightarrow> error + cell list list" where
  "key_tuples df by_vars =
     bind_err (traverse (getitem df) by_vars)
       (\<lambda>cols. Inr (map (\<lambda>i. map (\<lambda>c. values_of c ! i) cols) [0..<len df]))"

definition sort_values :: "dataframe \<Rightarrow> string list \<Rightarrow> error + dataframe" where
  "sort_values df by_vars =
     bind_err (key_tuples df by_vars)
       (\<lambda>ks. Inr (map (\<lambda>(name, s). (name, take_rows (argsort ks) s)) df))"

subsection \<open>Sets of key tuples\<close>

text \<open>
  Equality of two tuple entries as a Python \<^verbatim>\<open>set\<close> sees it: every float \<open>NaN\<close> read
  from an array is an object of its own and differs from every other one, \<^verbatim>\<open>None\<close> equals
  \<^verbatim>\<open>None\<close>. A set is the list of its elements, without repetition.
\<close>

definition py_eq :: "cell \<Rightarrow> cell \<Rightarrow> bool" where
  "py_eq a b = (a = b \<and> a \<noteq> NaN)"

definition tuple_eq :: "cell list \<Rightarrow> cell list \<Rightarrow> bool" where
  "tuple_eq k k' = (length k = length k' \<and> list_all (\<lambda>(a, b). py_eq a b) (zip k k'))"

definition py_set :: "cell list list \<Rightarrow> cell list list" where
  "py_set ks = foldl (\<lambda>s k. if list_ex (tuple_eq k) s then s else s @ [k]) [] ks"

definition set_minus :: "cell list list \<Rightarrow> cell list list \<Rightarrow> cell list list" where
  "set_minus s t = filter (\<lambda>k. \<not> list_ex (tuple_eq k) t) s"

definition set_inter :: "cell list list \<Rightarrow> cell list list \<Rightarrow> cell list list" where
  "set_inter s t = filter (\<lambda>k. list_ex (tuple_eq k) t) s"

subsection \<open>The rows of one key\<close>

text \<open>
  \<^verbatim>\<open>df.loc[(df[list(key_dict.keys())] == pd.Series(key_dict)).all(axis=1)]\<close>: the rows
  whose key cells all equal the key's entries, under the elementwise \<^verbatim>\<open>==\<close> of pandas,
  which is false on a missing value. Every key is a tuple (line 149), so the branch of
  lines 167-169 for a key that is not one is never taken.
\<close>

definition pd_eq :: "cell \<Rightarrow> cell \<Rightarrow> bool" where
  "pd_eq a b = (a = b \<and> \<not> isna a)"

definition group_mask :: "cell list list \<Rightarrow> cell list \<Rightarrow> bool list" where
  "group_mask ks key = map (\<lambda>rk. list_all (\<lambda>(a, b). pd_eq a b) (zip rk key)) ks"

fun select_rows :: "bool list \<Rightarrow> series \<Rightarrow> series" where
  "select_rows m (Float64 xs) = Float64 (map fst (filter snd (zip xs m)))"
| "select_rows m (Int64 xs) = Int64 (map fst (filter snd (zip xs m)))"
| "select_rows m (Object xs) = Object (map fst (filter snd (zip xs m)))"

definition loc :: "dataframe \<Rightarrow> string list \<Rightarrow> cell list \<Rightarrow> error + dataframe" where
  "loc df by_vars key =
     bind_err (key_tuples df by_vars)
       (\<lambda>ks. Inr (map (\<lambda>(name, s). (name, select_rows (group_mask ks key) s)) df))"

subsection \<open>The accumulation loop (lines 161-232)\<close>

text \<open>Lines 173-232, for one key and one column: the body under \<^verbatim>\<open>if col not in by\<close>.\<close>

definition keyed_column :: "cell list \<Rightarrow> string \<Rightarrow> real \<Rightarrow> real \<Rightarrow> series \<Rightarrow> series \<Rightarrow> difference_record list" where
  "keyed_column key col abs_tol rel_tol base_col comp_col =
     (let base_vals = values_of base_col; comp_vals = values_of comp_col in
      if length base_vals \<noteq> length comp_vals
      then [row_count_record (Some key) (Some col) (length base_vals) (length comp_vals)]
      else column_differences (Some key) col abs_tol rel_tol base_col comp_col)"

definition keyed_group :: "dataframe \<Rightarrow> dataframe \<Rightarrow> string list \<Rightarrow> real \<Rightarrow> real \<Rightarrow> cell list \<Rightarrow> error + difference_record list" where
  "keyed_group base_sorted comp_sorted by_vars abs_tol rel_tol key =
     bind_err (loc base_sorted by_vars key) (\<lambda>base_group.
     bind_err (loc comp_sorted by_vars key) (\<lambda>comp_group.
     bind_err (traverse
                 (\<lambda>col. if col \<notin> set by_vars
                         then bind_err (getitem base_group col) (\<lambda>b.
                              bind_err (getitem comp_group col) (\<lambda>c.
                                Inr (keyed_column key col abs_tol rel_tol b c)))
                         else Inr [])
                 (common_columns base_group comp_group))
       (\<lambda>per_column. Inr (concat per_column))))"

definition keyed_differences :: "dataframe \<Rightarrow> dataframe \<Rightarrow> string list \<Rightarrow> real \<Rightarrow> real \<Rightarrow> cell list list \<Rightarrow> error + difference_record list" where
  "keyed_differences base_sorted comp_sorted by_vars abs_tol rel_tol common_keys =
     bind_err (traverse (keyed_group base_sorted comp_sorted by_vars abs_tol rel_tol) common_keys)
       (\<lambda>per_key. Inr (concat per_key))"

section \<open>\<^verbatim>\<open>compare\<close>\<close>

text \<open>
  The counts of the keyed branch, \<^verbatim>\<open>result['by_group_count_match']\<close> to
  \<^verbatim>\<open>result['common_groups']\<close>, are present in keyed mode only.
\<close>

record group_counts =
  g_count_match :: bool
  g_base_only :: nat
  g_comp_only :: nat
  g_common :: nat

text \<open>
  The dictionary \<^verbatim>\<open>result\<close> as it is returned: lines 131-140, the keyed counts when there
  are any, and lines 293-294 on the list that \<^verbatim>\<open>result['differences']\<close> holds at the end.
\<close>

definition make_report :: "dataframe \<Rightarrow> dataframe \<Rightarrow> group_counts option \<Rightarrow> difference_record list \<Rightarrow> report" where
  "make_report base_df comp_df groups result_differences =
     \<lparr>row_count_match = (len base_df = len comp_df),
      base_rows = len base_df,
      comp_rows = len comp_df,
      column_count_match = (length (columns base_df) = length (columns comp_df)),
      base_columns = length (columns base_df),
      comp_columns = length (columns comp_df),
      column_names_match = (set (columns base_df) = set (columns comp_df)),
      differences = result_differences,
      by_group_count_match = map_option g_count_match groups,
      base_only_groups = map_option g_base_only groups,
      comp_only_groups = map_option g_comp_only groups,
      common_groups = map_option g_common groups,
      match = (length result_differences = 0),
      difference_count = length result_differences\<rparr>"

text \<open>
  Lines 143-232: the counts, and the list \<open>differences\<close> of line 161 as it is when the
  loop over the common keys ends. The \<^verbatim>\<open>groupby\<close> objects of lines 146-147 are never
  used.
\<close>

definition keyed_pass :: "dataframe \<Rightarrow> dataframe \<Rightarrow> string list \<Rightarrow> real \<Rightarrow> real \<Rightarrow> error + group_counts \<times> difference_record list" where
  "keyed_pass base_df comp_df by_vars abs_tol rel_tol =
     bind_err (sort_values base_df by_vars) (\<lambda>base_sorted.
     bind_err (sort_values comp_df by_vars) (\<lambda>comp_sorted.
     bind_err (key_tuples base_sorted by_vars) (\<lambda>base_key_rows.
     bind_err (key_tuples comp_sorted by_vars) (\<lambda>comp_key_rows.
       (let base_keys = py_set base_key_rows;
            comp_keys = py_set comp_key_rows;
            base_only_keys = set_minus base_keys comp_keys;
            comp_only_keys = set_minus comp_keys base_keys;
            common_keys = set_inter base_keys comp_keys;
            groups = \<lparr>g_count_match = (length base_keys = length comp_keys),
                      g_base_only = length base_only_keys,
                      g_comp_only = length comp_only_keys,
                      g_common = length common_keys\<rparr>
        in bind_err (keyed_differences base_sorted comp_sorted by_vars abs_tol rel_tol common_keys)
             (\<lambda>differences. Inr (groups, differences)))))))"

text \<open>
  The list \<open>differences\<close> of line 161 is local: the loop appends to it and nothing reads
  it afterwards, so \<^verbatim>\<open>result['differences']\<close> is still the empty list of line 139 when
  lines 293-294 run.
\<close>

definition compare_keyed :: "dataframe \<Rightarrow> dataframe \<Rightarrow> string list \<Rightarrow> real \<Rightarrow> real \<Rightarrow> error + report" where
  "compare_keyed base_df comp_df by_vars abs_tol rel_tol =
     bind_err (keyed_pass base_df comp_df by_vars abs_tol rel_tol)
       (\<lambda>(groups, differences). Inr (make_report base_df comp_df (Some groups) []))"

definition compare_positional :: "dataframe \<Rightarrow> dataframe \<Rightarrow> real \<Rightarrow> real \<Rightarrow> error + report" where
  "compare_positional base_df comp_df abs_tol rel_tol =
     bind_err (positional_differences base_df comp_df abs_tol rel_tol)
       (\<lambda>ds. Inr (make_report base_df comp_df None ds))"

text \<open>
  Line 142: \<^verbatim>\<open>if by and all(b in base.columns ...) and all(b in comp.columns ...)\<close>.
  \<^verbatim>\<open>by\<close> is \<^verbatim>\<open>None\<close> or a list of names; \<^verbatim>\<open>None\<close> and the empty list are false.
\<close>

definition keyed_mode :: "dataframe \<Rightarrow> dataframe \<Rightarrow> string list option \<Rightarrow> bool" where
  "keyed_mode base_df comp_df by_vars =
     (case by_vars of
        None \<Rightarrow> False
      | Some bs \<Rightarrow> bs \<noteq> [] \<and> list_all (\<lambda>b. b \<in> set (columns base_df)) bs
                          \<and> list_all (\<lambda>b. b \<in> set (columns comp_df)) bs)"

definition compare :: "dataframe \<Rightarrow> dataframe \<Rightarrow> string list option \<Rightarrow> real \<Rightarrow> real \<Rightarrow> error + report" where
  "compare base_df comp_df by_vars numeric_abs_tol numeric_rel_tol =
     (if keyed_mode base_df comp_df by_vars
      then compare_keyed base_df comp_df (case by_vars of None \<Rightarrow> [] | Some bs \<Rightarrow> bs)
             numeric_abs_tol numeric_rel_tol
      else compare_positional base_df comp_df numeric_abs_tol numeric_rel_tol)"

section \<open>\<^verbatim>\<open>compvars\<close>\<close>

text \<open>
  Lines 27-38. A Python set of names is the list of the names without repetition; the
  order in which \<^verbatim>\<open>list\<close> reads a set is open in Python and fixed here.
\<close>

definition compvars :: "dataframe \<Rightarrow> dataframe \<Rightarrow> string list \<times> string list \<times> string list" where
  "compvars ds1 ds2 =
     (let vars1 = remdups (columns ds1);
          vars2 = remdups (columns ds2);
          vars_left = filter (\<lambda>v. v \<notin> set vars2) vars1;
          vars_right = filter (\<lambda>v. v \<notin> set vars1) vars2;
          vars_both = filter (\<lambda>v. v \<in> set vars2) vars1
      in (vars_left, vars_right, vars_both))"

section \<open>\<^verbatim>\<open>complibs\<close>\<close>

subsection \<open>Paths and files\<close>

text \<open>
  What \<^verbatim>\<open>complibs\<close> and \<^verbatim>\<open>read_sas\<close> ask of the operating system and of
  \<^verbatim>\<open>pyreadstat\<close>: whether a path is a directory, whether it exists, the entries of a
  directory, and the table read from a file of either format.
\<close>

record filesystem =
  isdir :: "string \<Rightarrow> bool"
  path_exists :: "string \<Rightarrow> bool"
  listdir :: "string \<Rightarrow> string list"
  read_sas7bdat :: "string \<Rightarrow> error + dataframe"
  read_xport :: "string \<Rightarrow> error + dataframe"

text \<open>\<^verbatim>\<open>str.lower\<close> and \<^verbatim>\<open>str.endswith\<close>, on ASCII names.\<close>

definition lower_char :: "char \<Rightarrow> char" where
  "lower_char c =
     (let n = (of_char c :: nat) in if 65 \<le> n \<and> n \<le> 90 then char_of (n + 32) else c)"

definition lower :: "string \<Rightarrow> string" where
  "lower s = map lower_char s"

definition endswith :: "string \<Rightarrow> string \<Rightarrow> bool" where
  "endswith s suffix =
     (length suffix \<le> length s \<and> drop (length s - length suffix) s = suffix)"

text \<open>
  \<^verbatim>\<open>os.path.splitext(f)[0]\<close> for a name without directory part: the name up to its last
  dot, or the whole name when it has no dot or only dots before the last one.
\<close>

definition splitext_root :: "string \<Rightarrow> string" where
  "splitext_root p =
     (let ext = rev (takeWhile (\<lambda>c. c \<noteq> CHR ''.'') (rev p)) in
      if length ext = length p then p
      else (let root = take (length p - length ext - 1) p in
            if list_ex (\<lambda>c. c \<noteq> CHR ''.'') root then root else p))"

text \<open>\<^verbatim>\<open>os.path.join\<close> of a directory and a name (POSIX).\<close>

definition path_join :: "string \<Rightarrow> string \<Rightarrow> string" where
  "path_join a b =
     (if b \<noteq> [] \<and> hd b = CHR ''/'' then b
      else if a = [] \<or> last a = CHR ''/'' then a @ b
      else a @ ''/'' @ b)"

text \<open>\<^verbatim>\<open>read_sas\<close> of \<^verbatim>\<open>core/readers.py\<close>, lines 21-31, without the metadata.\<close>

definition read_sas :: "filesystem \<Rightarrow> string \<Rightarrow> error + dataframe" where
  "read_sas fs file_path =
     (if \<not> path_exists fs file_path
      then Inl (FileNotFoundError (''SAS dataset file not found: '' @ file_path))
      else if endswith (lower file_path) ''.sas7bdat'' then read_sas7bdat fs file_path
      else if endswith (lower file_path) ''.xpt'' then read_xport fs file_path
      else Inl (ValueError (''Unsupported file format: '' @ file_path
                            @ ''. Must be .sas7bdat or .xpt'')))"

text \<open>
  \<^verbatim>\<open>handle_sas_missing\<close>, lines 123-128: the strings \<^verbatim>\<open>"."\<close> and \<^verbatim>\<open>".A"\<close> to
  \<^verbatim>\<open>".Z"\<close> become \<^verbatim>\<open>None\<close>.
\<close>

definition sas_missing :: "string \<Rightarrow> bool" where
  "sas_missing s =
     (s = ''.'' \<or> (length s = 2 \<and> hd s = CHR ''.''
                    \<and> 65 \<le> (of_char (last s) :: nat) \<and> (of_char (last s) :: nat) \<le> 90))"

fun replace_missing :: "series \<Rightarrow> series" where
  "replace_missing (Object xs) =
     Object (map (\<lambda>x. case x of None \<Rightarrow> None
                       | Some s \<Rightarrow> if sas_missing s then None else Some s) xs)"
| "replace_missing s = s"

definition handle_sas_missing :: "dataframe \<Rightarrow> dataframe" where
  "handle_sas_missing df = map (\<lambda>(name, s). (name, replace_missing s)) df"

subsection \<open>The library comparison (lines 54-107)\<close>

record library_entry =
  entry_row_count_match :: bool
  ds1_rows :: nat
  ds2_rows :: nat
  vars_left :: "string list"
  vars_right :: "string list"
  vars_both :: "string list"
  comparison :: report

text \<open>\<^verbatim>\<open>ds[vars_both] if vars_both else pd.DataFrame()\<close>.\<close>

definition select_columns :: "dataframe \<Rightarrow> string list \<Rightarrow> error + dataframe" where
  "select_columns df names =
     (if names \<noteq> []
      then traverse (\<lambda>n. bind_err (getitem df n) (\<lambda>s. Inr (n, s))) names
      else Inr [])"

text \<open>\<^verbatim>\<open>next(f for f in files if os.path.splitext(f)[0].lower() == dataset)\<close>.\<close>

definition next_file :: "string list \<Rightarrow> string \<Rightarrow> error + string" where
  "next_file files dataset =
     (case find (\<lambda>f. lower (splitext_root f) = dataset) files of
        None \<Rightarrow> Inl StopIteration
      | Some f \<Rightarrow> Inr f)"

text \<open>The body of the loop of lines 69-105, for one dataset name.\<close>

definition compare_dataset :: "filesystem \<Rightarrow> string \<Rightarrow> string \<Rightarrow> string list option \<Rightarrow> string list \<Rightarrow> string list \<Rightarrow> string \<Rightarrow> error + string \<times> library_entry" where
  "compare_dataset fs lib1_path lib2_path sortvars lib1_files lib2_files dataset =
     bind_err (next_file lib1_files dataset) (\<lambda>lib1_file.
     bind_err (next_file lib2_files dataset) (\<lambda>lib2_file.
     bind_err (read_sas fs (path_join lib1_path lib1_file)) (\<lambda>ds1_read.
     bind_err (read_sas fs (path_join lib2_path lib2_file)) (\<lambda>ds2_read.
       (let ds1_clean = handle_sas_missing ds1_read;
            ds2_clean = handle_sas_missing ds2_read;
            sort_vars = (case sortvars of
                           None \<Rightarrow> []
                         | Some vs \<Rightarrow> filter (\<lambda>v. v \<in> set (columns ds1_clean)
                                                  \<and> v \<in> set (columns ds2_clean)) vs)
        in bind_err (if sort_vars \<noteq> [] then sort_values ds1_clean sort_vars
                     else Inr ds1_clean) (\<lambda>ds1.
           bind_err (if sort_vars \<noteq> [] then sort_values ds2_clean sort_vars
                     else Inr ds2_clean) (\<lambda>ds2.
             (case compvars ds1 ds2 of (vl, vr, vb) \<Rightarrow>
                bind_err (select_columns ds1 vb) (\<lambda>sel1.
                bind_err (select_columns ds2 vb) (\<lambda>sel2.
                bind_err (compare sel1 sel2 sortvars default_abs_tol default_rel_tol)
                  (\<lambda>comp_result.
                     Inr (dataset,
                          \<lparr>entry_row_count_match = (len ds1 = len ds2),
                           ds1_rows = len ds1,
                           ds2_rows = len ds2,
                           vars_left = vl,
                           vars_right = vr,
                           vars_both = vb,
                           comparison = comp_result\<rparr>))))))))))))"

text \<open>
  The dictionary \<^verbatim>\<open>results\<close> is the list of its items; the names in it are distinct.
\<close>

definition complibs :: "filesystem \<Rightarrow> string \<Rightarrow> string \<Rightarrow> string list option \<Rightarrow> error + (string \<times> library_entry) list" where
  "complibs fs lib1_path lib2_path sortvars =
     (if \<not> isdir fs lib1_path
      then Inl (ValueError (''First library path is not a directory: '' @ lib1_path))
      else if \<not> isdir fs lib2_path
      then Inl (ValueError (''Second library path is not a directory: '' @ lib2_path))
      else
        (let lib1_files = filter (\<lambda>f. endswith (lower f) ''.sas7bdat'') (listdir fs lib1_path);
             lib2_files = filter (\<lambda>f. endswith (lower f) ''.sas7bdat'') (listdir fs lib2_path);
             lib1_names = map (\<lambda>f. lower (splitext_root f)) lib1_files;
             lib2_names = map (\<lambda>f. lower (splitext_root f)) lib2_files;
             common_datasets = filter (\<lambda>n. n \<in> set lib2_names) (remdups lib1_names)
         in traverse (compare_dataset fs lib1_path lib2_path sortvars lib1_files lib2_files)
                     common_datasets))"

section \<open>Example inputs\<close>

text \<open>The two tables of the first end-to-end scenario of the specification.\<close>

definition scenario1_base :: dataframe where
  "scenario1_base =
     [(''id'', Int64 [1, 2, 3]), (''value'', Float64 [Some 10, Some 20, Some 30])]"

definition scenario1_comp :: dataframe where
  "scenario1_comp =
     [(''id'', Int64 [1, 2, 3]), (''value'', Float64 [Some 10, Some 20.5, Some 30])]"

text \<open>Two tables whose rows of key 1 differ in number.\<close>

definition uneven_base :: dataframe where
  "uneven_base = [(''id'', Int64 [1, 1]), (''value'', Float64 [Some 1, Some 2])]"

definition uneven_comp :: dataframe where
  "uneven_comp = [(''id'', Int64 [1]), (''value'', Float64 [Some 5])]"

text \<open>
  A file system with one directory, \<^verbatim>\<open>/data/adam\<close>, that holds a text file and no
  dataset.
\<close>

definition example_fs :: filesystem where
  "example_fs =
     \<lparr>isdir = (\<lambda>p. p = ''/data/adam''),
      path_exists = (\<lambda>p. p = ''/data/adam'' \<or> p = ''/data/adam/readme.txt''),
      listdir = (\<lambda>p. if p = ''/data/adam'' then [''readme.txt''] else []),
      read_sas7bdat = (\<lambda>p. Inl (FileNotFoundError p)),
      read_xport = (\<lambda>p. Inl (FileNotFoundError p))\<rparr>"

section \<open>The comparison rule of the specification\<close>

text \<open>
  The numeric rule as the specification words it (section 4.2, rule 3): within the absolute
  tolerance, or within the relative tolerance of the operand of larger magnitude.
\<close>

definition spec_values_equal :: "real \<Rightarrow> real \<Rightarrow> real \<Rightarrow> real \<Rightarrow> bool" where
  "spec_values_equal a b abs_tol rel_tol =
     (\<bar>a - b\<bar> \<le> abs_tol \<or> \<bar>a - b\<bar> \<le> rel_tol * max \<bar>a\<bar> \<bar>b\<bar>)"

section \<open>Calls that cannot fail\<close>

lemma bind_err_Inr [simp]: "bind_err (Inr x) f = f x"
  by (simp add: bind_err_def)

lemma bind_err_Inl [simp]: "bind_err (Inl e) f = Inl e"
  by (simp add: bind_err_def)

lemma traverse_total:
  "(\<And>x. x \<in> set xs \<Longrightarrow> f x = Inr (g x)) \<Longrightarrow> traverse f xs = Inr (map g xs)"
  by (induction xs) simp_all

lemma traverse_exists:
  "(\<And>x. x \<in> set xs \<Longrightarrow> \<exists>y. f x = Inr y) \<Longrightarrow> \<exists>ys. traverse f xs = Inr ys"
  by (induction xs) fastforce+

lemma getitem_the:
  "c \<in> set (columns df) \<Longrightarrow> getitem df c = Inr (the (map_of df c))"
  by (cases "map_of df c") (auto simp: getitem_def columns_def map_of_eq_None_iff)

lemma float_values_numeric:
  "v \<in> set (values_of (Float64 xs)) \<Longrightarrow> v = NaN \<or> (\<exists>r. v = Num r)"
  by (auto split: option.splits)

lemma key_tuples_total:
  assumes "set by_vars \<subseteq> set (columns df)"
  shows "\<exists>ks. key_tuples df by_vars = Inr ks"
proof -
  have "traverse (getitem df) by_vars = Inr (map (\<lambda>c. the (map_of df c)) by_vars)"
    using assms by (intro traverse_total getitem_the) auto
  then show ?thesis by (simp add: key_tuples_def)
qed

lemma columns_map_snd [simp]:
  "columns (map (\<lambda>(name, s). (name, f s)) df) = columns df"
  by (induction df) (auto simp: columns_def)

lemma sort_values_total:
  assumes "set by_vars \<subseteq> set (columns df)"
  shows "\<exists>d. sort_values df by_vars = Inr d \<and> columns d = columns df"
proof -
  obtain ks where "key_tuples df by_vars = Inr ks"
    using key_tuples_total [OF assms] by blast
  then show ?thesis by (simp add: sort_values_def)
qed

lemma loc_total:
  assumes "set by_vars \<subseteq> set (columns df)"
  shows "\<exists>d. loc df by_vars key = Inr d \<and> columns d = columns df"
proof -
  obtain ks where "key_tuples df by_vars = Inr ks"
    using key_tuples_total [OF assms] by blast
  then show ?thesis by (simp add: loc_def)
qed

lemma common_columns_subset:
  "c \<in> set (common_columns a b) \<Longrightarrow> c \<in> set (columns a) \<and> c \<in> set (columns b)"
  by (simp add: common_columns_def)

lemma keyed_group_total:
  assumes "set by_vars \<subseteq> set (columns bs)" and "set by_vars \<subseteq> set (columns cs)"
  shows "\<exists>ds. keyed_group bs cs by_vars abs_tol rel_tol key = Inr ds"
proof -
  obtain bg where bg: "loc bs by_vars key = Inr bg"
    using loc_total [OF assms(1)] by blast
  obtain cg where cg: "loc cs by_vars key = Inr cg"
    using loc_total [OF assms(2)] by blast
  let ?g = "\<lambda>col. if col \<notin> set by_vars
              then keyed_column key col abs_tol rel_tol (the (map_of bg col)) (the (map_of cg col))
              else []"
  have "traverse
          (\<lambda>col. if col \<notin> set by_vars
                  then bind_err (getitem bg col) (\<lambda>b.
                       bind_err (getitem cg col) (\<lambda>c.
                         Inr (keyed_column key col abs_tol rel_tol b c)))
                  else Inr [])
          (common_columns bg cg) = Inr (map ?g (common_columns bg cg))"
    by (rule traverse_total) (auto dest!: common_columns_subset simp: getitem_the)
  with bg cg show ?thesis by (simp add: keyed_group_def)
qed

lemma keyed_pass_total:
  assumes "set by_vars \<subseteq> set (columns base_df)" and "set by_vars \<subseteq> set (columns comp_df)"
  shows "\<exists>g ds. keyed_pass base_df comp_df by_vars abs_tol rel_tol = Inr (g, ds)"
proof -
  obtain bs where bs: "sort_values base_df by_vars = Inr bs" "columns bs = columns base_df"
    using sort_values_total [OF assms(1)] by blast
  obtain cs where cs: "sort_values comp_df by_vars = Inr cs" "columns cs = columns comp_df"
    using sort_values_total [OF assms(2)] by blast
  have sb: "set by_vars \<subseteq> set (columns bs)" and sc: "set by_vars \<subseteq> set (columns cs)"
    using assms bs cs by simp_all
  obtain bk where bk: "key_tuples bs by_vars = Inr bk"
    using key_tuples_total [OF sb] by blast
  obtain ck where ck: "key_tuples cs by_vars = Inr ck"
    using key_tuples_total [OF sc] by blast
  have "\<exists>ds. keyed_differences bs cs by_vars abs_tol rel_tol keys = Inr ds" for keys
  proof -
    obtain per_key where
      "traverse (keyed_group bs cs by_vars abs_tol rel_tol) keys = Inr per_key"
      using traverse_exists [of keys "keyed_group bs cs by_vars abs_tol rel_tol"]
            keyed_group_total [OF sb sc] by blast
    then show ?thesis by (simp add: keyed_differences_def)
  qed
  then obtain ds where
    "keyed_differences bs cs by_vars abs_tol rel_tol (set_inter (py_set bk) (py_set ck)) = Inr ds"
    by blast
  with bs cs bk ck show ?thesis by (simp add: keyed_pass_def Let_def)
qed

lemma compare_keyed_report:
  assumes "set by_vars \<subseteq> set (columns base_df)" and "set by_vars \<subseteq> set (columns comp_df)"
  shows "\<exists>g. compare_keyed base_df comp_df by_vars abs_tol rel_tol
               = Inr (make_report base_df comp_df (Some g) [])"
proof -
  obtain g ds where "keyed_pass base_df comp_df by_vars abs_tol rel_tol = Inr (g, ds)"
    using keyed_pass_total [OF assms] by blast
  then show ?thesis by (auto simp add: compare_keyed_def)
qed

lemma keyed_mode_subsets:
  "keyed_mode base_df comp_df by_opt \<Longrightarrow>
     \<exists>bs. by_opt = Some bs \<and> bs \<noteq> [] \<and> set bs \<subseteq> set (columns base_df)
          \<and> set bs \<subseteq> set (columns comp_df)"
  by (cases by_opt) (auto simp: keyed_mode_def list_all_iff)

lemma positional_differences_total:
  "positional_differences base_df comp_df abs_tol rel_tol =
     Inr ((if len base_df \<noteq> len comp_df
           then [row_count_record None None (len base_df) (len comp_df)] else [])
          @ concat (map (\<lambda>col. column_differences None col abs_tol rel_tol
                            (iloc_head (min (len base_df) (len comp_df)) (the (map_of base_df col)))
                            (iloc_head (min (len base_df) (len comp_df)) (the (map_of comp_df col))))
                        (common_columns base_df comp_df)))"
proof -
  let ?g = "\<lambda>col. column_differences None col abs_tol rel_tol
                 (iloc_head (min (len base_df) (len comp_df)) (the (map_of base_df col)))
                 (iloc_head (min (len base_df) (len comp_df)) (the (map_of comp_df col)))"
  have "traverse (positional_column base_df comp_df abs_tol rel_tol) (common_columns base_df comp_df)
          = Inr (map ?g (common_columns base_df comp_df))"
    by (rule traverse_total)
       (auto dest!: common_columns_subset simp: positional_column_def getitem_the Let_def)
  then show ?thesis by (simp add: positional_differences_def)
qed

subsection \<open>Rounding\<close>

lemma expo_ge2: "2 \<le> x \<Longrightarrow> expo x = expo (x / 2) + 1"
  by (subst expo.simps) simp

lemma expo_lt1: "0 < x \<Longrightarrow> x < 1 \<Longrightarrow> expo x = expo (2 * x) - 1"
  by (subst expo.simps) simp

lemma expo_mid: "1 \<le> x \<Longrightarrow> x < 2 \<Longrightarrow> expo x = 0"
  by (subst expo.simps) simp

lemmas f64_eval =
  round64_def round_half_even_def pow2_def expo_ge2 expo_lt1 expo_mid Let_def

lemma pow2_pos: "0 < pow2 q"
  by (simp add: pow2_def)

lemma round_half_even_nonneg: "0 \<le> x \<Longrightarrow> 0 \<le> round_half_even x"
  by (auto simp: round_half_even_def Let_def)

lemma round64_nonneg:
  assumes "0 \<le> x"
  shows "le64 (Finite 0) (round64 x)"
proof (cases "x = 0")
  case True
  then show ?thesis by (simp add: round64_def)
next
  case False
  with assms have pos: "0 < x" by simp
  let ?q = "max (expo \<bar>x\<bar> - 52) (- 1074)"
  have "0 \<le> x / pow2 ?q"
    using pos pow2_pos [of ?q] by simp
  then have "0 \<le> round_half_even (x / pow2 ?q)"
    by (rule round_half_even_nonneg)
  then have "0 \<le> of_int (round_half_even (x / pow2 ?q)) * pow2 ?q"
    using pow2_pos [of ?q] by simp
  with pos show ?thesis
    by (simp add: round64_def Let_def)
qed

lemma add64_nonneg:
  "0 \<le> a \<Longrightarrow> le64 (Finite 0) p \<Longrightarrow> le64 (Finite 0) (add64 a p)"
  by (cases p) (simp_all add: round64_nonneg)

lemma np_isclose_self:
  assumes "0 \<le> atol" and "0 \<le> rtol"
  shows "np_isclose a a rtol atol"
proof -
  have "le64 (Finite 0) (round64 (rtol * \<bar>a\<bar>))"
    using assms(2) by (intro round64_nonneg) simp
  then have "le64 (Finite 0) (add64 atol (round64 (rtol * \<bar>a\<bar>)))"
    by (rule add64_nonneg [OF assms(1)])
  then show ?thesis
    by (simp add: np_isclose_def round64_def)
qed

subsection \<open>The comparisons of the examples\<close>

lemma default_tol_nonneg: "0 \<le> default_abs_tol" "0 \<le> default_rel_tol"
  by (simp_all add: default_abs_tol_def default_rel_tol_def)

lemma round64_half: "round64 (1 / 2) = Finite (1 / 2)"
  by (simp add: f64_eval)

lemma round64_four: "round64 4 = Finite 4"
  by (simp add: f64_eval)

lemma not_close_20: "\<not> np_isclose 20 (41 / 2) default_rel_tol default_abs_tol"
  by (simp add: np_isclose_def default_abs_tol_def default_rel_tol_def f64_eval)

lemma not_close_1_5: "\<not> np_isclose 1 5 default_rel_tol default_abs_tol"
  by (simp add: np_isclose_def default_abs_tol_def default_rel_tol_def f64_eval)

lemma close_1_15: "np_isclose 1 (3 / 2) 1 1"
  by (simp add: np_isclose_def f64_eval)

subsection \<open>A column against itself\<close>

lemma float_cell_self:
  "0 \<le> abs_tol \<Longrightarrow> 0 \<le> rel_tol \<Longrightarrow> float_cell key col abs_tol rel_tol i v v = []"
  by (cases v) (simp_all add: float_cell_def isna_def np_isclose_self)

lemma exact_cell_self: "exact_cell key col i v v = []"
  by (simp add: exact_cell_def)

lemma concat_enumerate_self:
  "(\<And>i v. f (i, v, v) = []) \<Longrightarrow> concat (map f (enumerate n (zip xs xs))) = []"
  by (induction xs arbitrary: n) simp_all

lemma column_differences_self:
  assumes "0 \<le> abs_tol" and "0 \<le> rel_tol"
  shows "column_differences key col abs_tol rel_tol s s = []"
  using assms
  by (simp add: column_differences_def float_loop_def exact_loop_def
        concat_enumerate_self float_cell_self exact_cell_self)

lemma positional_differences_self:
  assumes "0 \<le> abs_tol" and "0 \<le> rel_tol"
  shows "positional_differences df df abs_tol rel_tol = Inr []"
  by (simp add: positional_differences_total column_differences_self [OF assms])

subsection \<open>Unfolding on concrete tables\<close>

lemmas eval_defs =
  keyed_pass_def sort_values_def key_tuples_def getitem_def len_def argsort_def py_set_def
  set_minus_def set_inter_def tuple_eq_def py_eq_def keyed_differences_def keyed_group_def
  loc_def group_mask_def pd_eq_def isna_def common_columns_def columns_def keyed_column_def
  column_differences_def float_loop_def float_cell_def compare_def compare_keyed_def
  compare_positional_def keyed_mode_def make_report_def positional_differences_def
  positional_column_def exact_loop_def exact_cell_def upt_rec [of 0] upt_rec [of "Suc 0"]
  upt_rec [of 1] upt_rec [of 2] upt_rec [of 3] Let_def numeral_2_eq_2 np_isclose_self
  default_tol_nonneg round64_half round64_four not_close_20 not_close_1_5

section \<open>Properties of the cell comparison\<close>

text \<open>
  C3, as the specification states it: two numbers are equal for the comparator exactly when
  \<open>spec_values_equal\<close> holds. The code does not compute that relation. With tolerances 1
  and 1/2 it takes 0 and 2 as equal, which the rule does not; with tolerances 0 and 1/2 it
  reports 2 against 1, which the rule takes as equal. Every number and every intermediate
  result of these two comparisons is a binary64 value, so that no operation rounds. With
  the default tolerances the code takes 1 and \<open>1 + 4506000000 / 2 ^ 52\<close> (about
  1.0000010005) as equal, which the rule does not.
\<close>

theorem float_cell_union_counterexample:
  "\<not> (float_cell None ''value'' 1 (1 / 2) 0 (Num 0) (Num 2) = [] \<longleftrightarrow> spec_values_equal 0 2 1 (1 / 2))
   \<and> \<not> (float_cell None ''value'' 0 (1 / 2) 0 (Num 2) (Num 1) = [] \<longleftrightarrow> spec_values_equal 2 1 0 (1 / 2))
   \<and> \<not> (float_cell None ''value'' default_abs_tol default_rel_tol 0
            (Num 1) (Num (1 + 4506000000 / 2 ^ 52)) = []
          \<longleftrightarrow> spec_values_equal 1 (1 + 4506000000 / 2 ^ 52) default_abs_tol default_rel_tol)"
  by (simp add: float_cell_def isna_def np_isclose_def spec_values_equal_def
        default_abs_tol_def default_rel_tol_def f64_eval)

text \<open>
  C3, amended: for finite tolerances that are not negative, two non-missing numbers \<open>a\<close>
  (base) and \<open>b\<close> (comparison) of a float column are equal for the comparator, that is no
  record is emitted, if and only if \<^verbatim>\<open>abs(a - b) <= abs_tol + rel_tol * abs(b)\<close> holds in
  float64 arithmetic: the difference, the product and the sum are each rounded to the
  nearest float, and the two tolerances are added, the relative one scaling with the
  comparison value alone. Where none of the three operations rounds, this is the relation
  \<open>\<bar>a - b\<bar> \<le> abs_tol + rel_tol * \<bar>b\<bar>\<close> on the reals. Otherwise one value-mismatch
  record is emitted, whose difference is the float64 result of \<open>b - a\<close>. The defaults are
  the floats nearest to \<open>1e-9\<close> and \<open>1e-6\<close>.
\<close>

theorem float_cell_equal_iff:
  assumes "0 \<le> abs_tol" and "0 \<le> rel_tol"
  shows "(float_cell key col abs_tol rel_tol i (Num a) (Num b) = [] \<longleftrightarrow>
            le64 (abs64 (round64 (a - b))) (add64 abs_tol (round64 (rel_tol * \<bar>b\<bar>))))
         \<and> (round64 (a - b) = Finite (a - b)
              \<and> round64 (rel_tol * \<bar>b\<bar>) = Finite (rel_tol * \<bar>b\<bar>)
              \<and> round64 (abs_tol + rel_tol * \<bar>b\<bar>) = Finite (abs_tol + rel_tol * \<bar>b\<bar>) \<longrightarrow>
             (float_cell key col abs_tol rel_tol i (Num a) (Num b) = [] \<longleftrightarrow>
                \<bar>a - b\<bar> \<le> abs_tol + rel_tol * \<bar>b\<bar>))
         \<and> (float_cell key col abs_tol rel_tol i (Num a) (Num b) \<noteq> [] \<longrightarrow>
              float_cell key col abs_tol rel_tol i (Num a) (Num b)
                = [value_record key col i (Num a) (Num b) (Some (round64 (b - a)))])
         \<and> round64 (1 / 10 ^ 9) = Finite default_abs_tol
         \<and> round64 (1 / 10 ^ 6) = Finite default_rel_tol"
proof -
  have d: "round64 (1 / 10 ^ 9) = Finite default_abs_tol"
          "round64 (1 / 10 ^ 6) = Finite default_rel_tol"
    by (simp_all add: default_abs_tol_def default_rel_tol_def f64_eval)
  have c: "float_cell key col abs_tol rel_tol i (Num a) (Num b) = [] \<longleftrightarrow>
             le64 (abs64 (round64 (a - b))) (add64 abs_tol (round64 (rel_tol * \<bar>b\<bar>)))"
    by (simp add: float_cell_def isna_def np_isclose_def)
  have e: "float_cell key col abs_tol rel_tol i (Num a) (Num b) = [] \<longleftrightarrow>
             \<bar>a - b\<bar> \<le> abs_tol + rel_tol * \<bar>b\<bar>"
    if "round64 (a - b) = Finite (a - b)"
      and "round64 (rel_tol * \<bar>b\<bar>) = Finite (rel_tol * \<bar>b\<bar>)"
      and "round64 (abs_tol + rel_tol * \<bar>b\<bar>) = Finite (abs_tol + rel_tol * \<bar>b\<bar>)"
    using that by (simp add: c)
  have r: "float_cell key col abs_tol rel_tol i (Num a) (Num b)
             = [value_record key col i (Num a) (Num b) (Some (round64 (b - a)))]"
    if "float_cell key col abs_tol rel_tol i (Num a) (Num b) \<noteq> []"
    using that by (simp add: float_cell_def isna_def split: if_splits)
  from c e r d show ?thesis by blast
qed

text \<open>
  At the default tolerances 20 and 20.5 differ and 20 and its successor
  \<open>20 + 1 / 2 ^ 48\<close> do not. With tolerances 1 and \<open>3 / 2 ^ 53\<close> the sum
  \<open>1 + 3 / 2 ^ 53\<close> is a tie that rounds up to \<open>1 + 1 / 2 ^ 51\<close>, so that
  \<open>- 1 / 2 ^ 51\<close> and 1 are equal although their distance exceeds the exact sum.
\<close>

theorem float_cell_equal_iff_witness:
  "0 \<le> default_abs_tol \<and> 0 \<le> default_rel_tol
   \<and> float_cell None ''value'' default_abs_tol default_rel_tol 1 (Num 20) (Num 20.5)
     = [value_record None ''value'' 1 (Num 20) (Num 20.5) (Some (Finite 0.5))]
   \<and> float_cell None ''value'' default_abs_tol default_rel_tol 1 (Num 20) (Num (20 + 1 / 2 ^ 48)) = []
   \<and> float_cell None ''value'' 1 (3 / 2 ^ 53) 0 (Num (- (1 / 2 ^ 51))) (Num 1) = []
   \<and> \<not> \<bar>- (1 / 2 ^ 51) - 1\<bar> \<le> (1::real) + 3 / 2 ^ 53 * \<bar>1\<bar>"
proof -
  have a: "0 \<le> default_abs_tol" and r: "0 \<le> default_rel_tol"
    by (simp_all add: default_abs_tol_def default_rel_tol_def)
  have t: "(0::real) \<le> 1" "(0::real) \<le> 3 / 2 ^ 53"
    by simp_all
  have far: "\<not> le64 (abs64 (round64 (20 - 20.5)))
                  (add64 default_abs_tol (round64 (default_rel_tol * \<bar>20.5\<bar>)))"
    by (simp add: default_abs_tol_def default_rel_tol_def f64_eval)
  have diff: "round64 (20.5 - 20) = Finite 0.5"
    by (simp add: f64_eval)
  have near: "le64 (abs64 (round64 (20 - (20 + 1 / 2 ^ 48))))
                (add64 default_abs_tol (round64 (default_rel_tol * \<bar>20 + 1 / 2 ^ 48\<bar>)))"
    by (simp add: default_abs_tol_def default_rel_tol_def f64_eval)
  have tie: "le64 (abs64 (round64 (- (1 / 2 ^ 51) - 1)))
               (add64 1 (round64 (3 / 2 ^ 53 * \<bar>1\<bar>)))"
    by (simp add: f64_eval)
  have exact: "\<not> \<bar>- (1 / 2 ^ 51) - 1\<bar> \<le> (1::real) + 3 / 2 ^ 53 * \<bar>1\<bar>"
    by simp
  from float_cell_equal_iff [OF a r, of None "''value''" 1 20 "20.5"] far diff
  have w1: "float_cell None ''value'' default_abs_tol default_rel_tol 1 (Num 20) (Num 20.5)
              = [value_record None ''value'' 1 (Num 20) (Num 20.5) (Some (Finite 0.5))]"
    by metis
  from float_cell_equal_iff [OF a r, of None "''value''" 1 20 "20 + 1 / 2 ^ 48"] near
  have w2: "float_cell None ''value'' default_abs_tol default_rel_tol 1 (Num 20)
              (Num (20 + 1 / 2 ^ 48)) = []"
    by blast
  from float_cell_equal_iff [OF t, of None "''value''" 0 "- (1 / 2 ^ 51)" 1] tie
  have w3: "float_cell None ''value'' 1 (3 / 2 ^ 53) 0 (Num (- (1 / 2 ^ 51))) (Num 1) = []"
    by blast
  from a r w1 w2 w3 exact show ?thesis by blast
qed

text \<open>
  C5: in both loop bodies, two missing values emit nothing, and exactly one missing value
  emits one record whose issue is the missing-value mismatch, not the value mismatch,
  whatever the other value and the tolerances are.
\<close>

theorem missing_rules:
  "(isna a \<and> isna b \<longrightarrow>
      float_cell key col abs_tol rel_tol i a b = [] \<and> exact_cell key col i a b = [])
   \<and> (isna a \<noteq> isna b \<longrightarrow>
        float_cell key col abs_tol rel_tol i a b = [missing_record key col i a b]
        \<and> exact_cell key col i a b = [missing_record key col i a b]
        \<and> issue (missing_record key col i a b) = ''missing_value_mismatch''
        \<and> issue (missing_record key col i a b) \<noteq> ''value_mismatch'')"
  by (auto simp add: float_cell_def exact_cell_def missing_record_def)

theorem missing_rules_witness:
  "isna NaN \<and> isna NoneV \<and> \<not> isna (Num 5)
   \<and> float_cell None ''value'' default_abs_tol default_rel_tol 0 NaN NaN = []
   \<and> exact_cell None ''name'' 0 NoneV NoneV = []
   \<and> float_cell None ''value'' default_abs_tol default_rel_tol 0 NaN (Num 5)
       = [missing_record None ''value'' 0 NaN (Num 5)]
   \<and> exact_cell None ''name'' 0 (Str ''a'') NoneV = [missing_record None ''name'' 0 (Str ''a'') NoneV]"
  using missing_rules [of NaN NaN None "''value''" default_abs_tol default_rel_tol 0]
        missing_rules [of NoneV NoneV None "''name''" default_abs_tol default_rel_tol 0]
        missing_rules [of NaN "Num 5" None "''value''" default_abs_tol default_rel_tol 0]
        missing_rules [of "Str ''a''" NoneV None "''name''" default_abs_tol default_rel_tol 0]
  by (simp add: isna_def)

text \<open>
  C10: two columns of the same name are compared with the tolerance rule when both dtypes
  are of kind \<^verbatim>\<open>'f'\<close> or \<^verbatim>\<open>'c'\<close>. In every other case, an integer column or two dtypes
  that disagree among them, each pair of non-missing cells is compared by exact equality,
  and the result does not depend on the tolerances.
\<close>

theorem tolerance_only_for_float_pairs:
  "(dtype_kind b \<in> set ''fc'' \<and> dtype_kind c \<in> set ''fc'' \<longrightarrow>
      column_differences key col abs_tol rel_tol b c
        = concat (map (\<lambda>(i, v, w). float_cell key col abs_tol rel_tol i v w)
                      (enumerate 0 (zip (values_of b) (values_of c)))))
   \<and> (\<not> (dtype_kind b \<in> set ''fc'' \<and> dtype_kind c \<in> set ''fc'') \<longrightarrow>
        column_differences key col abs_tol rel_tol b c
          = concat (map (\<lambda>(i, v, w).
                       if isna v \<and> isna w then []
                       else if isna v \<or> isna w then [missing_record key col i v w]
                       else if v \<noteq> w then [value_record key col i v w None] else [])
                     (enumerate 0 (zip (values_of b) (values_of c))))
        \<and> column_differences key col abs_tol rel_tol b c
          = column_differences key col abs_tol' rel_tol' b c)"
  by (simp add: column_differences_def float_loop_def exact_loop_def exact_cell_def)

theorem tolerance_only_for_float_pairs_witness:
  "column_differences None ''x'' 1 1 (Float64 [Some 1]) (Float64 [Some 1.5]) = []
   \<and> column_differences None ''x'' 1 1 (Int64 [1]) (Float64 [Some 1.5])
       = [value_record None ''x'' 0 (Num 1) (Num 1.5) None]
   \<and> column_differences None ''x'' 1 1 (Int64 [1]) (Int64 [2])
       = [value_record None ''x'' 0 (Num 1) (Num 2) None]"
  using tolerance_only_for_float_pairs [of "Float64 [Some 1]" "Float64 [Some 1.5]" None "''x''" 1 1]
        tolerance_only_for_float_pairs [of "Int64 [1]" "Float64 [Some 1.5]" None "''x''" 1 1]
        tolerance_only_for_float_pairs [of "Int64 [1]" "Int64 [2]" None "''x''" 1 1]
  by (simp add: float_cell_def isna_def close_1_15)

section \<open>Properties of \<^verbatim>\<open>compare\<close>\<close>

text \<open>
  C1: the first end-to-end scenario of the specification, two tables that differ in the
  value of id 2, compared by id with the default tolerances. The report that the code
  returns has no difference record and says that the tables match. The loop of the keyed
  branch does find the record, with variable \<open>value\<close>, the value-mismatch issue and the
  difference 0.5, in its local list; the same two tables compared without key columns give
  that record in the report.
\<close>

theorem scenario1_keyed_reports_match:
  "compare scenario1_base scenario1_comp (Some [''id'']) default_abs_tol default_rel_tol
     = Inr \<lparr>row_count_match = True, base_rows = 3, comp_rows = 3, column_count_match = True,
            base_columns = 2, comp_columns = 2, column_names_match = True, differences = [],
            by_group_count_match = Some True, base_only_groups = Some 0,
            comp_only_groups = Some 0, common_groups = Some 3, match = True,
            difference_count = 0\<rparr>
   \<and> keyed_pass scenario1_base scenario1_comp [''id''] default_abs_tol default_rel_tol
     = Inr (\<lparr>g_count_match = True, g_base_only = 0, g_comp_only = 0, g_common = 3\<rparr>,
            [value_record (Some [Num 2]) ''value'' 0 (Num 20) (Num 20.5) (Some (Finite 0.5))])
   \<and> compare scenario1_base scenario1_comp None default_abs_tol default_rel_tol
     = Inr \<lparr>row_count_match = True, base_rows = 3, comp_rows = 3, column_count_match = True,
            base_columns = 2, comp_columns = 2, column_names_match = True,
            differences = [value_record None ''value'' 1 (Num 20) (Num 20.5) (Some (Finite 0.5))],
            by_group_count_match = None, base_only_groups = None,
            comp_only_groups = None, common_groups = None, match = False,
            difference_count = 1\<rparr>"
  by (simp add: eval_defs scenario1_base_def scenario1_comp_def)

text \<open>
  C2: for well-formed tables, whenever the key list is not empty and all its columns are
  in both tables, \<^verbatim>\<open>compare\<close> returns a report, and that report has an empty difference list, a
  difference count of 0 and \<open>match\<close> true, whatever the cells of the two tables are.
\<close>

theorem keyed_report_never_differs:
  assumes "wf_frame base_df" and "wf_frame comp_df"
    and "keyed_mode base_df comp_df by_opt"
  shows "\<exists>r. compare base_df comp_df by_opt abs_tol rel_tol = Inr r
             \<and> differences r = [] \<and> difference_count r = 0 \<and> match r"
proof -
  obtain bs where bs: "by_opt = Some bs" "set bs \<subseteq> set (columns base_df)"
      "set bs \<subseteq> set (columns comp_df)"
    using keyed_mode_subsets [OF assms(3)] by blast
  obtain g where "compare_keyed base_df comp_df bs abs_tol rel_tol
                    = Inr (make_report base_df comp_df (Some g) [])"
    using compare_keyed_report [OF bs(2,3)] by blast
  with assms(3) bs(1) show ?thesis by (simp add: compare_def make_report_def)
qed

theorem keyed_report_never_differs_witness:
  "wf_frame scenario1_base \<and> wf_frame scenario1_comp
   \<and> keyed_mode scenario1_base scenario1_comp (Some [''id''])
   \<and> (\<exists>r. compare scenario1_base scenario1_comp (Some [''id'']) default_abs_tol default_rel_tol = Inr r
          \<and> differences r = [] \<and> difference_count r = 0 \<and> match r)"
proof -
  have km: "keyed_mode scenario1_base scenario1_comp (Some [''id''])"
    by (simp add: keyed_mode_def scenario1_base_def scenario1_comp_def columns_def)
  have wb: "wf_frame scenario1_base" and wc: "wf_frame scenario1_comp"
    by (simp_all add: wf_frame_def scenario1_base_def scenario1_comp_def columns_def len_def)
  show ?thesis
    using km wb wc keyed_report_never_differs [OF wb wc km, of default_abs_tol default_rel_tol]
    by simp
qed

text \<open>
  C4, as the specification states it: when the two groups of a key differ in length, a
  row-count record is emitted and the cells are still compared up to the shorter length.
  In the tables \<open>uneven_base\<close> and \<open>uneven_comp\<close> key 1 has two rows against one, and
  the first values, 1 and 5, differ. The list of the loop holds the row-count record and
  nothing else; comparing the first row of each group would have given a value-mismatch
  record.
\<close>

theorem uneven_group_counterexample:
  "keyed_pass uneven_base uneven_comp [''id''] default_abs_tol default_rel_tol
     = Inr (\<lparr>g_count_match = True, g_base_only = 0, g_comp_only = 0, g_common = 1\<rparr>,
            [row_count_record (Some [Num 1]) (Some ''value'') 2 1])
   \<and> column_differences (Some [Num 1]) ''value'' default_abs_tol default_rel_tol
        (iloc_head (min 2 1) (Float64 [Some 1, Some 2])) (iloc_head (min 2 1) (Float64 [Some 5]))
     = [value_record (Some [Num 1]) ''value'' 0 (Num 1) (Num 5) (Some (Finite 4))]"
  by (simp add: eval_defs uneven_base_def uneven_comp_def)

text \<open>
  C4, amended: in keyed mode, when the two groups of a common key differ in length in a
  column, the loop appends one row-count record for that key and column, with the two
  lengths, and goes on to the next column without comparing any cell of that column; no
  error is raised.
\<close>

theorem uneven_group_row_count:
  "(length (values_of base_col) \<noteq> length (values_of comp_col) \<longrightarrow>
      keyed_column key col abs_tol rel_tol base_col comp_col
        = [row_count_record (Some key) (Some col)
             (length (values_of base_col)) (length (values_of comp_col))]
      \<and> issue (row_count_record (Some key) (Some col)
                 (length (values_of base_col)) (length (values_of comp_col)))
          = ''row_count_mismatch'')
   \<and> (wf_frame base_df \<and> wf_frame comp_df \<and> keyed_mode base_df comp_df by_opt \<longrightarrow>
        (\<exists>r. compare base_df comp_df by_opt abs_tol rel_tol = Inr r))"
proof -
  have "\<exists>r. compare base_df comp_df by_opt abs_tol rel_tol = Inr r"
    if km: "keyed_mode base_df comp_df by_opt"
  proof -
    obtain bs where bs: "by_opt = Some bs" "set bs \<subseteq> set (columns base_df)"
        "set bs \<subseteq> set (columns comp_df)"
      using keyed_mode_subsets [OF km] by blast
    obtain g where "compare_keyed base_df comp_df bs abs_tol rel_tol
                      = Inr (make_report base_df comp_df (Some g) [])"
      using compare_keyed_report [OF bs(2,3)] by blast
    with km bs(1) show ?thesis by (simp add: compare_def)
  qed
  then show ?thesis
    by (simp add: keyed_column_def row_count_record_def Let_def)
qed

theorem uneven_group_row_count_witness:
  "keyed_column [Num 1] ''value'' default_abs_tol default_rel_tol
       (Float64 [Some 1, Some 2]) (Float64 [Some 5])
     = [row_count_record (Some [Num 1]) (Some ''value'') 2 1]
   \<and> wf_frame uneven_base \<and> wf_frame uneven_comp
   \<and> keyed_mode uneven_base uneven_comp (Some [''id''])
   \<and> (\<exists>r. compare uneven_base uneven_comp (Some [''id'']) default_abs_tol default_rel_tol = Inr r)"
proof -
  have km: "keyed_mode uneven_base uneven_comp (Some [''id''])"
    by (simp add: keyed_mode_def uneven_base_def uneven_comp_def columns_def)
  have wf: "wf_frame uneven_base" "wf_frame uneven_comp"
    by (simp_all add: wf_frame_def uneven_base_def uneven_comp_def columns_def len_def)
  show ?thesis
    using km wf uneven_group_row_count [of "Float64 [Some 1, Some 2]" "Float64 [Some 5]" "[Num 1]"
                "''value''" default_abs_tol default_rel_tol uneven_base uneven_comp "Some [''id'']"]
    by (simp add: numeral_2_eq_2)
qed



text \<open>
  C9: a well-formed table compared with itself, with any key list or none and tolerances that are
  not negative (the defaults are positive), gives a report with \<open>match\<close> true, a
  difference count of 0 and matching row counts; missing values in the table do not
  matter.
\<close>

theorem self_comparison_matches:
  assumes "wf_frame df" and "0 \<le> abs_tol" and "0 \<le> rel_tol"
  shows "\<exists>r. compare df df by_opt abs_tol rel_tol = Inr r
             \<and> match r \<and> difference_count r = 0 \<and> row_count_match r"
proof (cases "keyed_mode df df by_opt")
  case True
  then obtain bs where bs: "by_opt = Some bs" "set bs \<subseteq> set (columns df)"
    using keyed_mode_subsets by blast
  obtain g where "compare_keyed df df bs abs_tol rel_tol = Inr (make_report df df (Some g) [])"
    using compare_keyed_report [OF bs(2) bs(2)] by blast
  with True bs(1) show ?thesis by (simp add: compare_def make_report_def)
next
  case False
  then show ?thesis
    by (simp add: compare_def compare_positional_def make_report_def
          positional_differences_self [OF assms(2,3)])
qed

theorem self_comparison_matches_witness:
  "wf_frame [(''id'', Int64 [1, 2]), (''value'', Float64 [None, Some 20]),
             (''name'', Object [Some ''a'', None])]
   \<and> (0::real) \<le> default_abs_tol \<and> (0::real) \<le> default_rel_tol
   \<and> (\<exists>r. compare [(''id'', Int64 [1, 2]), (''value'', Float64 [None, Some 20]),
                    (''name'', Object [Some ''a'', None])]
                   [(''id'', Int64 [1, 2]), (''value'', Float64 [None, Some 20]),
                    (''name'', Object [Some ''a'', None])]
                   (Some [''id'']) default_abs_tol default_rel_tol = Inr r
          \<and> match r \<and> difference_count r = 0 \<and> row_count_match r)
   \<and> (\<exists>r. compare [(''id'', Int64 [1, 2]), (''value'', Float64 [None, Some 20]),
                    (''name'', Object [Some ''a'', None])]
                   [(''id'', Int64 [1, 2]), (''value'', Float64 [None, Some 20]),
                    (''name'', Object [Some ''a'', None])]
                   None default_abs_tol default_rel_tol = Inr r
          \<and> match r \<and> difference_count r = 0 \<and> row_count_match r)"
proof -
  have a: "(0::real) \<le> default_abs_tol" and r: "(0::real) \<le> default_rel_tol"
    by (simp_all add: default_abs_tol_def default_rel_tol_def)
  have w: "wf_frame [(''id'', Int64 [1, 2]), (''value'', Float64 [None, Some 20]),
                     (''name'', Object [Some ''a'', None])]"
    by (simp add: wf_frame_def columns_def len_def)
  show ?thesis
    using w a r
      self_comparison_matches [OF w a r, of "Some [''id'']"]
      self_comparison_matches [OF w a r, of None]
    by simp
qed

section \<open>Properties of \<^verbatim>\<open>compvars\<close> and \<^verbatim>\<open>complibs\<close>\<close>

text \<open>
  C8: the three lists that \<^verbatim>\<open>compvars\<close> returns (names in the first table only, in the
  second only, in both) are pairwise disjoint, hold no name twice, and together hold
  exactly the column names of the two tables; for a table against itself the first two
  are empty and the third holds all its column names.
\<close>

theorem compvars_partition:
  "(case compvars a b of (only1, only2, both) \<Rightarrow>
      set only1 \<inter> set both = {} \<and> set both \<inter> set only2 = {}
      \<and> set only1 \<inter> set only2 = {}
      \<and> set only1 \<union> set both \<union> set only2 = set (columns a) \<union> set (columns b)
      \<and> distinct only1 \<and> distinct both \<and> distinct only2)
   \<and> compvars a a = ([], [], remdups (columns a))
   \<and> set (remdups (columns a)) = set (columns a)"
  by (auto simp add: compvars_def Let_def)

theorem compvars_partition_witness:
  "compvars [(''a'', Int64 [1, 2]), (''b'', Int64 [3, 4]), (''c'', Int64 [5, 6])]
            [(''a'', Int64 [1, 2]), (''b'', Int64 [3, 4]), (''d'', Int64 [7, 8])]
     = ([''c''], [''d''], [''a'', ''b''])
   \<and> compvars [(''a'', Int64 [1, 2]), (''b'', Int64 [3, 4]), (''c'', Int64 [5, 6])]
              [(''a'', Int64 [1, 2]), (''b'', Int64 [3, 4]), (''c'', Int64 [5, 6])]
     = ([], [], [''a'', ''b'', ''c''])"
  using compvars_partition [of "[(''a'', Int64 [1, 2]), (''b'', Int64 [3, 4]), (''c'', Int64 [5, 6])]"
                               "[(''a'', Int64 [1, 2]), (''b'', Int64 [3, 4]), (''d'', Int64 [7, 8])]"]
  by (simp add: compvars_def columns_def)

text \<open>
  C6, as the specification states it: \<^verbatim>\<open>complibs\<close> fails with a
  \<^verbatim>\<open>DirectoryNotFoundError\<close> when a path is not a readable directory of tabular files.
  On a path that is not a directory the error is a \<^verbatim>\<open>ValueError\<close>, for the first path
  as for the second; and a directory that holds no dataset at all is accepted, with an
  empty result.
\<close>

theorem complibs_error_counterexample:
  "complibs example_fs ''/data/none'' ''/data/adam'' None
     = Inl (ValueError ''First library path is not a directory: /data/none'')
   \<and> complibs example_fs ''/data/adam'' ''/data/none'' None
     = Inl (ValueError ''Second library path is not a directory: /data/none'')
   \<and> error_name (ValueError ''First library path is not a directory: /data/none'')
       \<noteq> ''DirectoryNotFoundError''
   \<and> complibs example_fs ''/data/adam'' ''/data/adam'' None = Inr []"
  by (simp add: complibs_def example_fs_def endswith_def lower_def lower_char_def)

text \<open>
  C6, amended: \<^verbatim>\<open>complibs\<close> fails with a \<^verbatim>\<open>ValueError\<close> when either of its two paths
  is not a directory; the first path is tested first.
\<close>

theorem complibs_not_a_directory:
  "(\<not> isdir fs lib1_path \<longrightarrow>
      complibs fs lib1_path lib2_path sortvars
        = Inl (ValueError (''First library path is not a directory: '' @ lib1_path)))
   \<and> (isdir fs lib1_path \<and> \<not> isdir fs lib2_path \<longrightarrow>
        complibs fs lib1_path lib2_path sortvars
          = Inl (ValueError (''Second library path is not a directory: '' @ lib2_path)))"
  by (simp add: complibs_def)

theorem complibs_not_a_directory_witness:
  "\<not> isdir example_fs ''/data/none'' \<and> isdir example_fs ''/data/adam''
   \<and> (\<exists>msg. complibs example_fs ''/data/none'' ''/data/adam'' None = Inl (ValueError msg))
   \<and> (\<exists>msg. complibs example_fs ''/data/adam'' ''/data/none'' None = Inl (ValueError msg))"
  using complibs_not_a_directory [of example_fs "''/data/none''" "''/data/adam''" None]
        complibs_not_a_directory [of example_fs "''/data/adam''" "''/data/none''" None]
  by (simp add: example_fs_def)

end
